theory Spec2Isabelle
  imports Main "HOL-Library.AList"
begin

section \<open>JavaScript values\<close>

text \<open>
  The values that travel through the library: parsed JSON frames, outbound command
  objects, the arguments of the player methods. \<open>JUndefined\<close> is JavaScript's
  \<^verbatim>\<open>undefined\<close>; \<open>JBigInt\<close> stands for a value \<^verbatim>\<open>JSON.stringify\<close> refuses
  (it throws a TypeError on a BigInt), so that the \<^verbatim>\<open>catch\<close> branch of
  \<^verbatim>\<open>LavaNode.send\<close> is a branch of the model. Numbers are integers: the code
  never computes with them. An object is the list of its own properties in insertion
  order, each key once; the first binding of a key is its value.
\<close>

datatype jsval =
    JUndefined
  | JNull
  | JBool bool
  | JNum int
  | JStr string
  | JArr "jsval list"
  | JObj "(string \<times> jsval) list"
  | JBigInt int

type_synonym jsobj = "(string \<times> jsval) list"

text \<open>Truthiness, as \<^verbatim>\<open>if (x)\<close>, \<^verbatim>\<open>!x\<close>, \<^verbatim>\<open>x && y\<close> and \<^verbatim>\<open>Boolean(x)\<close> read a value.\<close>

fun truthy :: "jsval \<Rightarrow> bool" where
  "truthy JUndefined = False"
| "truthy JNull = False"
| "truthy (JBool b) = b"
| "truthy (JNum n) = (n \<noteq> 0)"
| "truthy (JStr s) = (s \<noteq> [])"
| "truthy (JArr xs) = True"
| "truthy (JObj fs) = True"
| "truthy (JBigInt n) = (n \<noteq> 0)"

text \<open>\<^verbatim>\<open>JSON.stringify(data)\<close> returns normally exactly on the values below.\<close>

fun serializable :: "jsval \<Rightarrow> bool" where
  "serializable (JBigInt n) = False"
| "serializable (JArr xs) = list_all serializable xs"
| "serializable (JObj fs) = list_all (\<lambda>(k, v). serializable v) fs"
| "serializable v = True"

text \<open>Property read \<^verbatim>\<open>o.k\<close> on an object: \<^verbatim>\<open>undefined\<close> when the key is absent.\<close>

definition property :: "jsobj \<Rightarrow> string \<Rightarrow> jsval" where
  "property fs k = (case map_of fs k of None \<Rightarrow> JUndefined | Some v \<Rightarrow> v)"

text \<open>
  Property read \<^verbatim>\<open>v.k\<close> on a value that is neither \<^verbatim>\<open>null\<close> nor
  \<^verbatim>\<open>undefined\<close>: a primitive has none of the keys the code reads.
\<close>

fun member_of :: "jsval \<Rightarrow> string \<Rightarrow> jsval" where
  "member_of (JObj fs) k = property fs k"
| "member_of v k = JUndefined"

text \<open>
  \<^verbatim>\<open>Object.assign(target, source)\<close>: every own property of the source is written
  to the target in order, replacing the value of a key the target has and appending a
  new key.
\<close>

definition assign :: "jsobj \<Rightarrow> jsobj \<Rightarrow> jsobj" where
  "assign target source = fold (\<lambda>(k, v). AList.update k v) source target"

text \<open>How a call ends: it returns a value or throws synchronously.\<close>

datatype js_error = TypeError | SyntaxError | SocketError string

datatype 'a completion = Returned 'a | Thrown js_error

section \<open>The runtime: LavaNode objects, sockets, timers and the trace of effects\<close>

datatype node_signal =
    Ready
  | Message jsval
  | NodeError js_error
  | Disconnect jsval
  | Reconnecting

datatype player_signal =
    End jsval
  | PlayerError jsval
  | Warn string

text \<open>The payload of a gateway voice-state request: \<^verbatim>\<open>data.d\<close> of join and leave.\<close>

record voice_state =
  guild_id :: string
  channel_id :: string

text \<open>The argument of \<^verbatim>\<open>LavaLink.join\<close>.\<close>

record join_data =
  shard :: nat
  host :: string
  op :: jsval
  d :: voice_state

text \<open>
  Everything the library does to the outside, in the order it does it:
  \<^item> \<open>NewWebSocket h url auth n uid\<close>: \<^verbatim>\<open>new WebSocket(url, {headers})\<close> made the socket
    with handle \<open>h\<close>;
  \<^item> \<open>SocketSend h v\<close>: \<^verbatim>\<open>ws.send(payload)\<close> on the socket \<open>h\<close>, the payload being the
    JSON text of \<open>v\<close>;
  \<^item> \<open>SetTimeout a ms\<close>: the node at address \<open>a\<close> scheduled its reconnect callback;
  \<^item> \<open>NodeEmit a s\<close>: the node at address \<open>a\<close> called \<^verbatim>\<open>this.emit\<close>;
  \<^item> \<open>PlayerEmit g s\<close>: the player of guild \<open>g\<close> called \<^verbatim>\<open>this.emit\<close>;
  \<^item> \<open>ClientWsSend data\<close>: \<^verbatim>\<open>this.client.ws.send(data)\<close>;
  \<^item> \<open>ShardSend n op d\<close>: \<^verbatim>\<open>this.client.connections.get(n).send(op, d)\<close>.
  An \<^verbatim>\<open>emit\<close> is recorded here and returns. How the event emitter dispatches a
  signal to its listeners (it throws an error signal that has no listener), what the
  listeners of the host application do, and what the socket library does with a
  payload, are outside the library.
\<close>

datatype effect =
    NewWebSocket nat string string nat string
  | SocketSend nat jsval
  | SetTimeout nat nat
  | NodeEmit nat node_signal
  | PlayerEmit string player_signal
  | ClientWsSend join_data
  | ShardSend nat jsval voice_state

text \<open>
  A LavaNode object. \<open>ws\<close> is the handle of the current socket (\<open>None\<close> is
  \<^verbatim>\<open>null\<close>), \<open>ready\<close> is \<open>None\<close> until \<^verbatim>\<open>_ready\<close> or \<^verbatim>\<open>_close\<close> first writes it
  (the constructor does not), \<open>listeners\<close> are the event names LavaLink subscribed to.
\<close>

record lava_node =
  gateway :: string
  user :: string
  shards :: nat
  password :: string
  reconnectInterval :: nat
  ws :: "nat option"
  ready :: "bool option"
  stats :: jsval
  listeners :: "string list"

text \<open>
  The runtime state. LavaNode objects live in \<open>heap\<close> by address, since a node is
  reached from the \<open>nodes\<close> map of LavaLink, from a player and from the closure of a
  pending timer; the addresses below \<open>allocated\<close> are in use. \<open>timers\<close> are the pending
  \<^verbatim>\<open>setTimeout\<close> callbacks (the node whose \<^verbatim>\<open>_reconnect\<close> scheduled it, and the
  delay), \<open>sockets\<close> counts the WebSocket objects made so far.
\<close>

record world =
  heap :: "nat \<Rightarrow> lava_node"
  allocated :: nat
  timers :: "(nat \<times> nat) list"
  sockets :: nat
  trace :: "effect list"

definition update_node ::
  "nat \<Rightarrow> (lava_node \<Rightarrow> lava_node) \<Rightarrow> 'a world_scheme \<Rightarrow> 'a world_scheme" where
  "update_node this f w = w\<lparr>heap := (heap w)(this := f (heap w this))\<rparr>"

definition effect :: "effect \<Rightarrow> 'a world_scheme \<Rightarrow> 'a world_scheme" where
  "effect e w = w\<lparr>trace := trace w @ [e]\<rparr>"

section \<open>LavaNode\<close>

text \<open>The constructor's options; an absent number is \<open>None\<close>.\<close>

record node_options =
  o_gateway :: string
  o_user :: string
  o_shards :: "nat option"
  o_password :: string
  o_reconnectInterval :: "nat option"

text \<open>\<^verbatim>\<open>x || d\<close> on an optional number: \<^verbatim>\<open>undefined\<close> and \<^verbatim>\<open>0\<close> are falsy.\<close>

definition or_default :: "nat option \<Rightarrow> nat \<Rightarrow> nat" where
  "or_default x dflt = (case x of None \<Rightarrow> dflt | Some n \<Rightarrow> if n = 0 then dflt else n)"

text \<open>\<^verbatim>\<open>_connect()\<close>: a new socket replaces the handle.\<close>

definition LavaNode_connect :: "nat \<Rightarrow> 'a world_scheme \<Rightarrow> 'a world_scheme" where
  "LavaNode_connect this w =
     (let n = heap w this; h = sockets w in
      update_node this (\<lambda>n. n\<lparr>ws := Some h\<rparr>)
        (effect (NewWebSocket h (gateway n) (password n) (shards n) (user n))
          (w\<lparr>sockets := Suc h\<rparr>)))"

text \<open>\<^verbatim>\<open>new LavaNode(options)\<close>: the address of the new object and the state after.\<close>

definition LavaNode_new :: "node_options \<Rightarrow> 'a world_scheme \<Rightarrow> nat \<times> 'a world_scheme" where
  "LavaNode_new options w =
     (let this = allocated w;
          n = \<lparr>gateway = ''ws://'' @ o_gateway options,
               user = o_user options,
               shards = or_default (o_shards options) 1,
               password = o_password options,
               reconnectInterval = or_default (o_reconnectInterval options) 10000,
               ws = None,
               ready = None,
               stats = JObj [(''players'', JNum 0), (''playingPlayers'', JNum 0)],
               listeners = []\<rparr>
      in (this, LavaNode_connect this (w\<lparr>heap := (heap w)(this := n), allocated := Suc this\<rparr>)))"

text \<open>\<^verbatim>\<open>_ready()\<close>, the socket's \<^verbatim>\<open>open\<close> handler.\<close>

definition LavaNode_ready :: "nat \<Rightarrow> 'a world_scheme \<Rightarrow> 'a world_scheme" where
  "LavaNode_ready this w =
     effect (NodeEmit this Ready) (update_node this (\<lambda>n. n\<lparr>ready := Some True\<rparr>) w)"

text \<open>
  \<^verbatim>\<open>_message(message)\<close>, the socket's \<^verbatim>\<open>message\<close> handler. \<open>parsed\<close> is what
  \<^verbatim>\<open>JSON.parse(message)\<close> gives: \<open>None\<close> when it throws.
\<close>

definition LavaNode_message :: "nat \<Rightarrow> jsval option \<Rightarrow> 'a world_scheme \<Rightarrow> 'a world_scheme" where
  "LavaNode_message this parsed w =
     (case parsed of
        None \<Rightarrow> effect (NodeEmit this (NodeError SyntaxError)) w
      | Some data \<Rightarrow>
          if \<not> truthy data then w
          else
            let w1 = (if member_of data ''op'' = JStr ''stats''
                      then update_node this (\<lambda>n. n\<lparr>stats := data\<rparr>) w else w)
            in effect (NodeEmit this (Message data)) w1)"

text \<open>\<^verbatim>\<open>_reconnect()\<close>: one timer, whose handle is not kept.\<close>

definition LavaNode_reconnect :: "nat \<Rightarrow> 'a world_scheme \<Rightarrow> 'a world_scheme" where
  "LavaNode_reconnect this w =
     (let ms = reconnectInterval (heap w this) in
      effect (SetTimeout this ms) (w\<lparr>timers := timers w @ [(this, ms)]\<rparr>))"

text \<open>
  The callback \<^verbatim>\<open>_reconnect\<close> handed to \<^verbatim>\<open>setTimeout\<close>, run when the \<open>i\<close>-th pending
  timer fires: the timer is spent, the node emits \<^verbatim>\<open>reconnecting\<close> and connects.
\<close>

definition timer_fires :: "nat \<Rightarrow> 'a world_scheme \<Rightarrow> 'a world_scheme" where
  "timer_fires i w =
     (if i < length (timers w)
      then
        let this = fst (timers w ! i);
            w1 = w\<lparr>timers := take i (timers w) @ drop (Suc i) (timers w)\<rparr>
        in LavaNode_connect this (effect (NodeEmit this Reconnecting) w1)
      else w)"

text \<open>\<^verbatim>\<open>_close(code, reason)\<close>, the socket's \<^verbatim>\<open>close\<close> handler.\<close>

definition LavaNode_close :: "nat \<Rightarrow> int \<Rightarrow> jsval \<Rightarrow> 'a world_scheme \<Rightarrow> 'a world_scheme" where
  "LavaNode_close this code reason w =
     (let w1 = update_node this (\<lambda>n. n\<lparr>ready := Some False\<rparr>) w in
      if code \<noteq> 1000 then LavaNode_reconnect this w1
      else effect (NodeEmit this (Disconnect reason))
             (update_node this (\<lambda>n. n\<lparr>ws := None\<rparr>) w1))"

text \<open>\<^verbatim>\<open>s.includes(sub)\<close> on strings.\<close>

fun str_includes :: "string \<Rightarrow> string \<Rightarrow> bool" where
  "str_includes [] sub = (sub = [])"
| "str_includes (c # cs) sub = (take (length sub) (c # cs) = sub \<or> str_includes cs sub)"

text \<open>\<^verbatim>\<open>_error(error)\<close>, the socket's \<^verbatim>\<open>error\<close> handler, on \<^verbatim>\<open>error.message\<close>.\<close>

definition LavaNode_error :: "nat \<Rightarrow> string \<Rightarrow> 'a world_scheme \<Rightarrow> 'a world_scheme" where
  "LavaNode_error this message w =
     (if str_includes message ''socket hang up'' then w
      else if str_includes message ''ECONNREFUSED'' then LavaNode_reconnect this w
      else effect (NodeEmit this (NodeError (SocketError message))) w)"

text \<open>\<^verbatim>\<open>send(data)\<close>: the handle is dereferenced without a check.\<close>

definition LavaNode_send ::
  "nat \<Rightarrow> jsval \<Rightarrow> 'a world_scheme \<Rightarrow> unit completion \<times> 'a world_scheme" where
  "LavaNode_send this data w =
     (if \<not> serializable data
      then (Returned (), effect (NodeEmit this (NodeError TypeError)) w)
      else
        (case ws (heap w this) of
           None \<Rightarrow> (Thrown TypeError, w)
         | Some h \<Rightarrow> (Returned (), effect (SocketSend h data) w)))"


section \<open>LavaPlayer\<close>

text \<open>
  A LavaPlayer object. \<open>node\<close> is the address of the LavaNode it was given, \<open>None\<close> when
  \<^verbatim>\<open>options.node\<close> was \<^verbatim>\<open>undefined\<close>; \<open>track\<close> is whatever value \<^verbatim>\<open>play\<close> last stored, \<open>JNull\<close> at first.
\<close>

record lava_player =
  node :: "nat option"
  guild :: string
  channel :: string
  p_ready :: bool
  playing :: bool
  paused :: bool
  state :: jsval
  track :: jsval
  timestamp :: nat

record player_options =
  o_node :: "nat option"
  o_guild :: string
  o_channel :: string

text \<open>\<^verbatim>\<open>new LavaPlayer(options)\<close>; \<open>now\<close> is what \<^verbatim>\<open>Date.now()\<close> returns.\<close>

definition LavaPlayer_new :: "player_options \<Rightarrow> nat \<Rightarrow> lava_player" where
  "LavaPlayer_new options now =
     \<lparr>node = o_node options,
      guild = o_guild options,
      channel = o_channel options,
      p_ready = False,
      playing = False,
      paused = False,
      state = JObj [],
      track = JNull,
      timestamp = now\<rparr>"

text \<open>\<^verbatim>\<open>this.node.send(data)\<close>: a TypeError when the player has no node.\<close>

definition node_send ::
  "lava_player \<Rightarrow> jsval \<Rightarrow> 'a world_scheme \<Rightarrow> unit completion \<times> 'a world_scheme" where
  "node_send p data w =
     (case node p of
        None \<Rightarrow> (Thrown TypeError, w)
      | Some a \<Rightarrow> LavaNode_send a data w)"

text \<open>\<^verbatim>\<open>this.emit(name, message)\<close> of a player.\<close>

definition player_emit :: "lava_player \<Rightarrow> player_signal \<Rightarrow> 'a world_scheme \<Rightarrow> 'a world_scheme" where
  "player_emit p s w = effect (PlayerEmit (guild p) s) w"

text \<open>
  Each method takes the player and the runtime state and gives how the call ended, the
  player and the state after it. A statement after a call that threw is not run.
\<close>

text \<open>\<^verbatim>\<open>connect(data)\<close>, with \<^verbatim>\<open>data.session\<close> and \<^verbatim>\<open>data.event\<close>.\<close>

definition LavaPlayer_connect ::
  "jsval \<Rightarrow> jsval \<Rightarrow> lava_player \<Rightarrow> 'a world_scheme
     \<Rightarrow> unit completion \<times> lava_player \<times> 'a world_scheme" where
  "LavaPlayer_connect session event p w =
     (case node_send p (JObj [(''op'', JStr ''voiceUpdate''), (''guildId'', JStr (guild p)),
                              (''sessionId'', session), (''event'', event)]) w of
        (r, w') \<Rightarrow> (r, p, w'))"

text \<open>The object \<^verbatim>\<open>play\<close> hands to \<^verbatim>\<open>this.node.send\<close>.\<close>

definition play_payload :: "lava_player \<Rightarrow> jsval \<Rightarrow> jsobj \<Rightarrow> jsobj" where
  "play_payload p t options =
     assign [(''op'', JStr ''play''), (''guildId'', JStr (guild p)), (''track'', t)] options"

text \<open>\<^verbatim>\<open>play(track, options)\<close>: the track is stored as it is given, whatever it is;
  \<open>now\<close> is what \<^verbatim>\<open>Date.now()\<close> returns.\<close>

definition LavaPlayer_play ::
  "jsval \<Rightarrow> jsobj \<Rightarrow> nat \<Rightarrow> lava_player \<Rightarrow> 'a world_scheme
     \<Rightarrow> unit completion \<times> lava_player \<times> 'a world_scheme" where
  "LavaPlayer_play t options now p w =
     (let p1 = p\<lparr>track := t\<rparr> in
      case node_send p1 (JObj (play_payload p1 t options)) w of
        (Thrown e, w') \<Rightarrow> (Thrown e, p1, w')
      | (Returned u, w') \<Rightarrow> (Returned (), p1\<lparr>playing := True, timestamp := now\<rparr>, w'))"

text \<open>\<^verbatim>\<open>stop()\<close>.\<close>

definition LavaPlayer_stop ::
  "lava_player \<Rightarrow> 'a world_scheme \<Rightarrow> unit completion \<times> lava_player \<times> 'a world_scheme" where
  "LavaPlayer_stop p w =
     (case node_send p (JObj [(''op'', JStr ''stop''), (''guildId'', JStr (guild p))]) w of
        (Thrown e, w') \<Rightarrow> (Thrown e, p, w')
      | (Returned u, w') \<Rightarrow> (Returned (), p\<lparr>playing := False, track := JNull\<rparr>, w'))"

text \<open>\<^verbatim>\<open>pause(pause)\<close>: the guard compares truthiness.\<close>

definition LavaPlayer_pause ::
  "jsval \<Rightarrow> lava_player \<Rightarrow> 'a world_scheme
     \<Rightarrow> unit completion \<times> lava_player \<times> 'a world_scheme" where
  "LavaPlayer_pause flag p w =
     (if (truthy flag \<and> paused p) \<or> (\<not> truthy flag \<and> \<not> paused p) then (Returned (), p, w)
      else
        case node_send p (JObj [(''op'', JStr ''pause''), (''guildId'', JStr (guild p)),
                                (''pause'', flag)]) w of
          (Thrown e, w') \<Rightarrow> (Thrown e, p, w')
        | (Returned u, w') \<Rightarrow> (Returned (), p\<lparr>paused := truthy flag\<rparr>, w'))"

text \<open>\<^verbatim>\<open>volume(volume)\<close> and \<^verbatim>\<open>seek(position)\<close>.\<close>

definition LavaPlayer_volume ::
  "jsval \<Rightarrow> lava_player \<Rightarrow> 'a world_scheme
     \<Rightarrow> unit completion \<times> lava_player \<times> 'a world_scheme" where
  "LavaPlayer_volume v p w =
     (case node_send p (JObj [(''op'', JStr ''volume''), (''guildId'', JStr (guild p)),
                              (''volume'', v)]) w of
        (r, w') \<Rightarrow> (r, p, w'))"

definition LavaPlayer_seek ::
  "jsval \<Rightarrow> lava_player \<Rightarrow> 'a world_scheme
     \<Rightarrow> unit completion \<times> lava_player \<times> 'a world_scheme" where
  "LavaPlayer_seek position p w =
     (case node_send p (JObj [(''op'', JStr ''seek''), (''guildId'', JStr (guild p)),
                              (''position'', position)]) w of
        (r, w') \<Rightarrow> (r, p, w'))"

text \<open>
  \<^verbatim>\<open>end(message)\<close>. Reading \<^verbatim>\<open>message.reason\<close> throws a TypeError on \<^verbatim>\<open>null\<close> and
  \<^verbatim>\<open>undefined\<close>; the comparison is \<^verbatim>\<open>!==\<close> with the string \<^verbatim>\<open>'REPLACED'\<close>.
\<close>

definition LavaPlayer_end ::
  "jsval \<Rightarrow> lava_player \<Rightarrow> 'a world_scheme
     \<Rightarrow> unit completion \<times> lava_player \<times> 'a world_scheme" where
  "LavaPlayer_end message p w =
     (if message = JNull \<or> message = JUndefined then (Thrown TypeError, p, w)
      else
        let p1 = (if member_of message ''reason'' \<noteq> JStr ''REPLACED''
                  then p\<lparr>playing := False, track := JNull\<rparr> else p)
        in (Returned (), p1, player_emit p1 (End message) w))"

text \<open>\<^verbatim>\<open>exception(message)\<close>.\<close>

definition LavaPlayer_exception ::
  "jsval \<Rightarrow> lava_player \<Rightarrow> 'a world_scheme
     \<Rightarrow> unit completion \<times> lava_player \<times> 'a world_scheme" where
  "LavaPlayer_exception message p w = (Returned (), p, player_emit p (PlayerError message) w)"

text \<open>\<^verbatim>\<open>stuck(message)\<close>.\<close>

definition LavaPlayer_stuck ::
  "jsval \<Rightarrow> lava_player \<Rightarrow> 'a world_scheme
     \<Rightarrow> unit completion \<times> lava_player \<times> 'a world_scheme" where
  "LavaPlayer_stuck message p w =
     (case LavaPlayer_stop p w of
        (Thrown e, p', w') \<Rightarrow> (Thrown e, p', w')
      | (Returned u, p', w') \<Rightarrow> (Returned (), p', player_emit p' (End message) w'))"

text \<open>
  The calls a holder of a player makes, one after another. A call that throws leaves
  the player as it was when it threw, and the next call finds it so.
\<close>

datatype player_call =
    Connect jsval jsval
  | Play jsval jsobj nat
  | Stop
  | Pause jsval
  | Volume jsval
  | Seek jsval
  | OnEnd jsval
  | OnException jsval
  | OnStuck jsval

fun call ::
  "player_call \<Rightarrow> lava_player \<Rightarrow> 'a world_scheme
     \<Rightarrow> unit completion \<times> lava_player \<times> 'a world_scheme" where
  "call (Connect session event) p w = LavaPlayer_connect session event p w"
| "call (Play t options now) p w = LavaPlayer_play t options now p w"
| "call Stop p w = LavaPlayer_stop p w"
| "call (Pause flag) p w = LavaPlayer_pause flag p w"
| "call (Volume v) p w = LavaPlayer_volume v p w"
| "call (Seek position) p w = LavaPlayer_seek position p w"
| "call (OnEnd message) p w = LavaPlayer_end message p w"
| "call (OnException message) p w = LavaPlayer_exception message p w"
| "call (OnStuck message) p w = LavaPlayer_stuck message p w"

fun calls :: "player_call list \<Rightarrow> lava_player \<Rightarrow> 'a world_scheme \<Rightarrow> lava_player \<times> 'a world_scheme" where
  "calls [] p w = (p, w)"
| "calls (c # cs) p w = (case call c p w of (r, p', w') \<Rightarrow> calls cs p' w')"

section \<open>LavaLink\<close>

text \<open>
  The LavaLink object with its client. \<open>connections\<close> is \<^verbatim>\<open>this.client.connections\<close>:
  \<open>None\<close> when the client has none, else the shard ids the map has a connection for;
  \<open>client_ws\<close> says whether \<^verbatim>\<open>this.client.ws\<close> is there. \<open>nodes\<close> maps a host to the
  address of its LavaNode, \<open>players\<close> a guild id to its LavaPlayer.
\<close>

record lavalink = world +
  connections :: "nat list option"
  client_ws :: bool
  nodes :: "string \<Rightarrow> nat option"
  players :: "string \<Rightarrow> lava_player option"

record link_node_options =
  l_gateway :: string
  l_shards :: "nat option"
  l_user :: string
  l_password :: string
  l_host :: string

text \<open>\<^verbatim>\<open>createNode(options)\<close>: the interval is not passed on.\<close>

definition LavaLink_createNode :: "link_node_options \<Rightarrow> lavalink \<Rightarrow> lavalink" where
  "LavaLink_createNode options l =
     (case LavaNode_new \<lparr>o_gateway = l_gateway options, o_user = l_user options,
                          o_shards = l_shards options, o_password = l_password options,
                          o_reconnectInterval = None\<rparr> l of
        (a, l1) \<Rightarrow>
          (update_node a (\<lambda>n. n\<lparr>listeners := listeners n @ [''error'', ''message'']\<rparr>) l1)
            \<lparr>nodes := (nodes l1)(l_host options := Some a)\<rparr>)"

text \<open>\<^verbatim>\<open>removeNode(host)\<close>.\<close>

definition LavaLink_removeNode :: "string \<Rightarrow> lavalink \<Rightarrow> lavalink" where
  "LavaLink_removeNode h l =
     (case nodes l h of
        None \<Rightarrow> l
      | Some a \<Rightarrow> (update_node a (\<lambda>n. n\<lparr>listeners := []\<rparr>) l)\<lparr>nodes := (nodes l)(h := None)\<rparr>)"

text \<open>\<^verbatim>\<open>spawnPlayer(data)\<close>; \<open>now\<close> is what \<^verbatim>\<open>Date.now()\<close> returns.\<close>

definition LavaLink_spawnPlayer :: "string \<Rightarrow> string \<Rightarrow> string \<Rightarrow> nat \<Rightarrow> lavalink \<Rightarrow> lavalink" where
  "LavaLink_spawnPlayer h g c now l =
     (case players l g of
        Some player \<Rightarrow> l
      | None \<Rightarrow>
          l\<lparr>players := (players l)(g := Some (LavaPlayer_new
               \<lparr>o_node = nodes l h, o_guild = g, o_channel = c\<rparr> now))\<rparr>)"

text \<open>
  \<^verbatim>\<open>join(data)\<close>: the player when the guild has one, else \<^verbatim>\<open>undefined\<close> (\<open>None\<close>).
  \<^verbatim>\<open>this.client.connections.get(data.shard)\<close> is \<^verbatim>\<open>undefined\<close> for a shard the map
  lacks, and calling \<^verbatim>\<open>send\<close> on it throws.
\<close>

definition LavaLink_join ::
  "join_data \<Rightarrow> nat \<Rightarrow> lavalink \<Rightarrow> lava_player option completion \<times> lavalink" where
  "LavaLink_join data now l =
     (case players l (guild_id (d data)) of
        Some player \<Rightarrow> (Returned (Some player), l)
      | None \<Rightarrow>
          let l1 = (if connections l = None \<and> client_ws l
                    then LavaLink_spawnPlayer (host data) (guild_id (d data)) (channel_id (d data)) now
                           (effect (ClientWsSend data) l)
                    else l)
          in
            (case connections l1 of
               None \<Rightarrow> (Returned None, l1)
             | Some conns \<Rightarrow>
                 if client_ws l1 then (Returned None, l1)
                 else if shard data \<in> set conns
                 then (Returned None,
                       LavaLink_spawnPlayer (host data) (guild_id (d data)) (channel_id (d data)) now
                         (effect (ShardSend (shard data) (op data) (d data)) l1))
                 else (Thrown TypeError, l1)))"

text \<open>\<^verbatim>\<open>new LavaLink(client)\<close> in a process that has made no node yet.\<close>

definition LavaLink_new :: "nat list option \<Rightarrow> bool \<Rightarrow> lavalink" where
  "LavaLink_new conns has_ws =
     \<lparr>heap = (\<lambda>a. \<lparr>gateway = [], user = [], shards = 0, password = [], reconnectInterval = 0,
                    ws = None, ready = None, stats = JUndefined, listeners = []\<rparr>),
      allocated = 0, timers = [], sockets = 0, trace = [],
      connections = conns, client_ws = has_ws,
      nodes = (\<lambda>h. None), players = (\<lambda>g. None)\<rparr>"

section \<open>The invariant of a player and the scenario of the specification\<close>

text \<open>The player invariant: no track, not playing.\<close>

definition no_track_not_playing :: "lava_player \<Rightarrow> bool" where
  "no_track_not_playing p = (track p = JNull \<longrightarrow> \<not> playing p)"

text \<open>The calls that hand \<^verbatim>\<open>null\<close> to \<^verbatim>\<open>play\<close> as the track.\<close>

fun plays_null :: "player_call \<Rightarrow> bool" where
  "plays_null (Play t options now) = (t = JNull)"
| "plays_null c = False"

text \<open>
  The scenario: a client with sharded connections (one for shard 0) and no gateway socket
  of its own, the node of host \<open>a\<close> registered, a join request for guild \<open>g1\<close>.
\<close>

definition scenario_link :: lavalink where
  "scenario_link =
     LavaLink_createNode
       \<lparr>l_gateway = ''localhost:8080'', l_shards = Some 1, l_user = ''42'',
        l_password = ''secret'', l_host = ''a''\<rparr>
       (LavaLink_new (Some [0]) False)"

definition scenario_join :: join_data where
  "scenario_join =
     \<lparr>shard = 0, host = ''a'', op = JNum 4, d = \<lparr>guild_id = ''g1'', channel_id = ''c1''\<rparr>\<rparr>"

definition scenario_player :: lava_player where
  "scenario_player = LavaPlayer_new \<lparr>o_node = Some 0, o_guild = ''g1'', o_channel = ''c1''\<rparr> 5"

text \<open>The scenario after the join, after a normal close of the node's socket, and after
  an abnormal close followed by the removal of the node.\<close>

definition scenario_joined :: lavalink where
  "scenario_joined = snd (LavaLink_join scenario_join 5 scenario_link)"

definition scenario_closed :: lavalink where
  "scenario_closed = LavaNode_close 0 1000 JNull scenario_link"

definition scenario_removed :: lavalink where
  "scenario_removed = LavaLink_removeNode ''a'' (LavaNode_close 0 1006 JNull scenario_link)"

section \<open>Auxiliary facts\<close>

lemma effect_fields [simp]:
  "heap (effect e w) = heap w"
  "allocated (effect e w) = allocated w"
  "timers (effect e w) = timers w"
  "sockets (effect e w) = sockets w"
  "trace (effect e w) = trace w @ [e]"
  by (simp_all add: effect_def)

lemma update_node_fields [simp]:
  "heap (update_node a f w) = (heap w)(a := f (heap w a))"
  "allocated (update_node a f w) = allocated w"
  "timers (update_node a f w) = timers w"
  "sockets (update_node a f w) = sockets w"
  "trace (update_node a f w) = trace w"
  by (simp_all add: update_node_def)

lemma effect_link_fields [simp]:
  "connections (effect e l) = connections l"
  "client_ws (effect e l) = client_ws l"
  "nodes (effect e l) = nodes l"
  "players (effect e l) = players l"
  by (simp_all add: effect_def)

lemma update_node_link_fields [simp]:
  "connections (update_node a f l) = connections l"
  "client_ws (update_node a f l) = client_ws l"
  "nodes (update_node a f l) = nodes l"
  "players (update_node a f l) = players l"
  by (simp_all add: update_node_def)

lemmas node_defs = LavaNode_new_def LavaNode_connect_def LavaNode_close_def
  LavaNode_reconnect_def LavaNode_send_def LavaNode_message_def timer_fires_def or_default_def

lemmas link_defs = LavaLink_new_def LavaLink_createNode_def LavaLink_removeNode_def
  LavaLink_spawnPlayer_def LavaLink_join_def

subsection \<open>Sending through an open handle\<close>

lemma node_send_open:
  "node p = Some a \<Longrightarrow> ws (heap w a) = Some h \<Longrightarrow> serializable data \<Longrightarrow>
   node_send p data w = (Returned (), effect (SocketSend h data) w)"
  by (simp add: node_send_def LavaNode_send_def)

lemma node_send_cases:
  obtains e w' where "node_send p data w = (Thrown e, w')"
  | w' where "node_send p data w = (Returned (), w')"
proof (cases "node_send p data w")
  case (Pair r w')
  then show ?thesis
    by (cases r) (auto intro: that)
qed

lemma pause_same:
  "truthy flag = paused p \<Longrightarrow> LavaPlayer_pause flag p w = (Returned (), p, w)"
  by (auto simp add: LavaPlayer_pause_def)

lemma pause_other:
  "truthy flag \<noteq> paused p \<Longrightarrow> node p = Some a \<Longrightarrow> ws (heap w a) = Some h \<Longrightarrow>
   serializable flag \<Longrightarrow>
   LavaPlayer_pause flag p w =
     (Returned (), p\<lparr>paused := truthy flag\<rparr>,
      effect (SocketSend h (JObj [(''op'', JStr ''pause''), (''guildId'', JStr (guild p)),
                                  (''pause'', flag)])) w)"
  by (auto simp add: LavaPlayer_pause_def node_send_open)

lemma pause_true_again:
  "paused p \<Longrightarrow> calls (replicate n (Pause (JBool True))) p w = (p, w)"
  by (induction n) (simp_all add: pause_same)

lemma play_payload_guild: "play_payload (p\<lparr>track := x\<rparr>) t options = play_payload p t options"
  by (simp add: play_payload_def)

lemma play_open:
  "node p = Some a \<Longrightarrow> ws (heap w a) = Some h \<Longrightarrow>
   serializable (JObj (play_payload p t options)) \<Longrightarrow>
   LavaPlayer_play t options now p w =
     (Returned (), p\<lparr>track := t, playing := True, timestamp := now\<rparr>,
      effect (SocketSend h (JObj (play_payload p t options))) w)"
  by (simp add: LavaPlayer_play_def Let_def play_payload_guild node_send_open
           del: serializable.simps)

lemma map_of_assign: "map_of (assign target source) = map_of target ++ map_of (rev source)"
  unfolding assign_def
proof (induction source arbitrary: target)
  case Nil
  then show ?case by simp
next
  case (Cons x source)
  obtain k v where x: "x = (k, v)" by (cases x)
  show ?case
    by (rule ext) (simp add: x Cons.IH update_conv' map_add_def split: option.splits)
qed

subsection \<open>What each method can do to the player\<close>

lemma connect_player: "LavaPlayer_connect s e p w = (r, p', w') \<Longrightarrow> p' = p"
  by (auto simp add: LavaPlayer_connect_def split: prod.splits)

lemma volume_player: "LavaPlayer_volume v p w = (r, p', w') \<Longrightarrow> p' = p"
  by (auto simp add: LavaPlayer_volume_def split: prod.splits)

lemma seek_player: "LavaPlayer_seek v p w = (r, p', w') \<Longrightarrow> p' = p"
  by (auto simp add: LavaPlayer_seek_def split: prod.splits)

lemma exception_player: "LavaPlayer_exception m p w = (r, p', w') \<Longrightarrow> p' = p"
  by (auto simp add: LavaPlayer_exception_def)

lemma pause_player:
  "LavaPlayer_pause flag p w = (r, p', w') \<Longrightarrow> p' = p \<or> p' = p\<lparr>paused := truthy flag\<rparr>"
  by (cases rule: node_send_cases
        [of p "JObj [(''op'', JStr ''pause''), (''guildId'', JStr (guild p)), (''pause'', flag)]" w])
     (auto simp add: LavaPlayer_pause_def split: if_splits)

lemma play_player:
  "LavaPlayer_play t options now p w = (r, p', w') \<Longrightarrow>
   p' = p\<lparr>track := t\<rparr> \<or> p' = p\<lparr>track := t, playing := True, timestamp := now\<rparr>"
  by (cases rule: node_send_cases
        [of "p\<lparr>track := t\<rparr>" "JObj (play_payload (p\<lparr>track := t\<rparr>) t options)" w])
     (auto simp add: LavaPlayer_play_def Let_def)

lemma stop_player:
  "LavaPlayer_stop p w = (r, p', w') \<Longrightarrow>
   (p' = p \<and> r \<noteq> Returned ()) \<or> (p' = p\<lparr>playing := False, track := JNull\<rparr> \<and> r = Returned ())"
  by (cases rule: node_send_cases
        [of p "JObj [(''op'', JStr ''stop''), (''guildId'', JStr (guild p))]" w])
     (auto simp add: LavaPlayer_stop_def)

lemma stuck_player:
  "LavaPlayer_stuck m p w = (r, p', w') \<Longrightarrow> p' = p \<or> p' = p\<lparr>playing := False, track := JNull\<rparr>"
proof -
  assume a: "LavaPlayer_stuck m p w = (r, p', w')"
  obtain r1 p1 w1 where s: "LavaPlayer_stop p w = (r1, p1, w1)"
    by (cases "LavaPlayer_stop p w") auto
  from stop_player [OF s] a s show ?thesis
    by (cases r1) (auto simp add: LavaPlayer_stuck_def)
qed

lemma end_player:
  "LavaPlayer_end m p w = (r, p', w') \<Longrightarrow> p' = p \<or> p' = p\<lparr>playing := False, track := JNull\<rparr>"
  by (auto simp add: LavaPlayer_end_def Let_def split: if_splits)

lemma call_keeps_invariant:
  "no_track_not_playing p \<Longrightarrow> \<not> plays_null c \<Longrightarrow> call c p w = (r, p', w') \<Longrightarrow>
   no_track_not_playing p'"
proof (cases c)
  case (Connect s e)
  then show "no_track_not_playing p \<Longrightarrow> \<not> plays_null c \<Longrightarrow> call c p w = (r, p', w') \<Longrightarrow> ?thesis"
    by (auto dest: connect_player)
next
  case (Play t options now)
  then show "no_track_not_playing p \<Longrightarrow> \<not> plays_null c \<Longrightarrow> call c p w = (r, p', w') \<Longrightarrow> ?thesis"
    by (auto dest!: play_player simp add: no_track_not_playing_def)
next
  case Stop
  then show "no_track_not_playing p \<Longrightarrow> \<not> plays_null c \<Longrightarrow> call c p w = (r, p', w') \<Longrightarrow> ?thesis"
    by (auto dest!: stop_player simp add: no_track_not_playing_def)
next
  case (Pause flag)
  then show "no_track_not_playing p \<Longrightarrow> \<not> plays_null c \<Longrightarrow> call c p w = (r, p', w') \<Longrightarrow> ?thesis"
    by (auto dest!: pause_player simp add: no_track_not_playing_def)
next
  case (Volume v)
  then show "no_track_not_playing p \<Longrightarrow> \<not> plays_null c \<Longrightarrow> call c p w = (r, p', w') \<Longrightarrow> ?thesis"
    by (auto dest: volume_player)
next
  case (Seek v)
  then show "no_track_not_playing p \<Longrightarrow> \<not> plays_null c \<Longrightarrow> call c p w = (r, p', w') \<Longrightarrow> ?thesis"
    by (auto dest: seek_player)
next
  case (OnEnd m)
  then show "no_track_not_playing p \<Longrightarrow> \<not> plays_null c \<Longrightarrow> call c p w = (r, p', w') \<Longrightarrow> ?thesis"
    by (auto dest!: end_player simp add: no_track_not_playing_def)
next
  case (OnException m)
  then show "no_track_not_playing p \<Longrightarrow> \<not> plays_null c \<Longrightarrow> call c p w = (r, p', w') \<Longrightarrow> ?thesis"
    by (auto dest: exception_player)
next
  case (OnStuck m)
  then show "no_track_not_playing p \<Longrightarrow> \<not> plays_null c \<Longrightarrow> call c p w = (r, p', w') \<Longrightarrow> ?thesis"
    by (auto dest!: stuck_player simp add: no_track_not_playing_def)
qed

lemma calls_keep_invariant:
  "no_track_not_playing p \<Longrightarrow> \<not> list_ex plays_null cs \<Longrightarrow> calls cs p w = (p', w') \<Longrightarrow>
   no_track_not_playing p'"
proof (induction cs arbitrary: p w)
  case Nil
  then show ?case by simp
next
  case (Cons c cs)
  obtain r p1 w1 where step: "call c p w = (r, p1, w1)"
    by (cases "call c p w") auto
  from Cons.prems(2) have c: "\<not> plays_null c" and cs: "\<not> list_ex plays_null cs"
    by simp_all
  from Cons.prems(1) c step have "no_track_not_playing p1"
    by (rule call_keeps_invariant)
  moreover from Cons.prems(3) step have "calls cs p1 w1 = (p', w')"
    by simp
  ultimately show ?case using cs by (intro Cons.IH)
qed

subsection \<open>The scenario, evaluated\<close>

lemma scenario_link_fields:
  "heap scenario_link 0 =
     \<lparr>gateway = ''ws://localhost:8080'', user = ''42'', shards = 1, password = ''secret'',
      reconnectInterval = 10000, ws = Some 0, ready = None,
      stats = JObj [(''players'', JNum 0), (''playingPlayers'', JNum 0)],
      listeners = [''error'', ''message'']\<rparr>"
  "timers scenario_link = []"
  "sockets scenario_link = 1"
  "trace scenario_link = [NewWebSocket 0 ''ws://localhost:8080'' ''secret'' 1 ''42'']"
  "connections scenario_link = Some [0]"
  "client_ws scenario_link = False"
  "nodes scenario_link ''a'' = Some 0"
  "nodes scenario_link ''b'' = None"
  "players scenario_link g = None"
  by (simp_all add: scenario_link_def node_defs link_defs Let_def)

lemma scenario_player_fields:
  "node scenario_player = Some 0"
  "guild scenario_player = ''g1''"
  "paused scenario_player = False"
  "playing scenario_player = False"
  "track scenario_player = JNull"
  by (simp_all add: scenario_player_def LavaPlayer_new_def)

lemma scenario_joined_fields:
  "players scenario_joined ''g1'' = Some scenario_player"
  "trace scenario_joined =
     [NewWebSocket 0 ''ws://localhost:8080'' ''secret'' 1 ''42'',
      ShardSend 0 (JNum 4) \<lparr>guild_id = ''g1'', channel_id = ''c1''\<rparr>]"
  by (simp_all add: scenario_joined_def scenario_join_def scenario_player_def
        LavaLink_join_def LavaLink_spawnPlayer_def scenario_link_fields Let_def)

lemma scenario_closed_fields:
  "ws (heap scenario_closed 0) = None"
  "trace scenario_closed =
     [NewWebSocket 0 ''ws://localhost:8080'' ''secret'' 1 ''42'', NodeEmit 0 (Disconnect JNull)]"
  by (simp_all add: scenario_closed_def LavaNode_close_def scenario_link_fields Let_def)

section \<open>The claims\<close>

subsection \<open>C1: join and an existing session\<close>

text \<open>
  C1, as the code has it. \<^verbatim>\<open>join\<close> looks the guild up before it does anything else.
  When the guild has a session, that session is returned and the state is left as it
  was: no session is created and nothing is forwarded to the transport. When the guild
  has none and the client has a transport for the request (a connection for its shard,
  or else a gateway socket of its own), the payload is forwarded once and the session is
  created, bound to the node of the named host.
\<close>

theorem join_returns_existing_or_forwards:
  "(players l (guild_id (d data)) = Some p \<longrightarrow>
      LavaLink_join data now l = (Returned (Some p), l)) \<and>
   (players l (guild_id (d data)) = None \<and> connections l = Some conns \<and> \<not> client_ws l \<and>
    shard data \<in> set conns \<longrightarrow>
      LavaLink_join data now l =
        (Returned None,
         l\<lparr>trace := trace l @ [ShardSend (shard data) (op data) (d data)],
           players := (players l)(guild_id (d data) :=
             Some (LavaPlayer_new \<lparr>o_node = nodes l (host data), o_guild = guild_id (d data),
                                   o_channel = channel_id (d data)\<rparr> now))\<rparr>)) \<and>
   (players l (guild_id (d data)) = None \<and> connections l = None \<and> client_ws l \<longrightarrow>
      LavaLink_join data now l =
        (Returned None,
         l\<lparr>trace := trace l @ [ClientWsSend data],
           players := (players l)(guild_id (d data) :=
             Some (LavaPlayer_new \<lparr>o_node = nodes l (host data), o_guild = guild_id (d data),
                                   o_channel = channel_id (d data)\<rparr> now))\<rparr>))"
  by (simp add: LavaLink_join_def LavaLink_spawnPlayer_def effect_def)

text \<open>
  C1 in the scenario: the second join for \<open>g1\<close> returns the session of the first and
  leaves the state alone; the first join, and a join through a client with a gateway
  socket, forward once and create the session.
\<close>

theorem join_returns_existing_or_forwards_witness:
  "LavaLink_join scenario_join 6 scenario_joined = (Returned (Some scenario_player), scenario_joined) \<and>
   LavaLink_join scenario_join 5 scenario_link =
     (Returned None,
      scenario_link\<lparr>trace := trace scenario_link @
                       [ShardSend 0 (JNum 4) \<lparr>guild_id = ''g1'', channel_id = ''c1''\<rparr>],
        players := (players scenario_link)(''g1'' := Some scenario_player)\<rparr>) \<and>
   LavaLink_join scenario_join 5 (LavaLink_new None True) =
     (Returned None,
      (LavaLink_new None True)\<lparr>trace := trace (LavaLink_new None True) @ [ClientWsSend scenario_join],
        players := (players (LavaLink_new None True))(''g1'' :=
          Some (LavaPlayer_new \<lparr>o_node = None, o_guild = ''g1'', o_channel = ''c1''\<rparr> 5))\<rparr>)"
proof (intro conjI)
  show "LavaLink_join scenario_join 6 scenario_joined =
      (Returned (Some scenario_player), scenario_joined)"
    using join_returns_existing_or_forwards
      [where l = scenario_joined and data = scenario_join and p = scenario_player and now = 6]
    by (simp add: scenario_join_def scenario_joined_fields)
next
  show "LavaLink_join scenario_join 5 scenario_link =
     (Returned None,
      scenario_link\<lparr>trace := trace scenario_link @
                       [ShardSend 0 (JNum 4) \<lparr>guild_id = ''g1'', channel_id = ''c1''\<rparr>],
        players := (players scenario_link)(''g1'' := Some scenario_player)\<rparr>)"
    using join_returns_existing_or_forwards
      [where l = scenario_link and data = scenario_join and conns = "[0]" and now = 5]
    by (simp add: scenario_join_def scenario_player_def scenario_link_fields)
next
  have "players (LavaLink_new None True) ''g1'' = None"
       "connections (LavaLink_new None True) = None"
       "client_ws (LavaLink_new None True)"
       "nodes (LavaLink_new None True) ''a'' = None"
    by (simp_all add: LavaLink_new_def)
  then show "LavaLink_join scenario_join 5 (LavaLink_new None True) =
     (Returned None,
      (LavaLink_new None True)\<lparr>trace := trace (LavaLink_new None True) @ [ClientWsSend scenario_join],
        players := (players (LavaLink_new None True))(''g1'' :=
          Some (LavaPlayer_new \<lparr>o_node = None, o_guild = ''g1'', o_channel = ''c1''\<rparr> 5))\<rparr>)"
    using join_returns_existing_or_forwards
      [where l = "LavaLink_new None True" and data = scenario_join and now = 5]
    by (simp add: scenario_join_def)
qed

text \<open>
  C1 as stated fails: after the second join for \<open>g1\<close> the trace still holds the one
  gateway request of the first join, so the second call forwarded nothing.
\<close>

theorem join_forwards_every_call_counterexample:
  "fst (LavaLink_join scenario_join 6 scenario_joined) = Returned (Some scenario_player) \<and>
   trace (snd (LavaLink_join scenario_join 6 scenario_joined)) =
     [NewWebSocket 0 ''ws://localhost:8080'' ''secret'' 1 ''42'',
      ShardSend 0 (JNum 4) \<lparr>guild_id = ''g1'', channel_id = ''c1''\<rparr>]"
  by (simp add: LavaLink_join_def scenario_join_def scenario_joined_fields)

subsection \<open>C2: removing a node and its reconnect timer\<close>

text \<open>
  C2, as the code has it. \<^verbatim>\<open>removeNode(host)\<close> does nothing for an unknown host; for a
  known one it removes the node's listeners and deletes the map entry. It leaves the
  pending timers as they are (\<^verbatim>\<open>_reconnect\<close> keeps no timer handle, and nothing clears
  one), so a reconnect timer of the removed node still fires after the removal: the node
  emits \<^verbatim>\<open>reconnecting\<close> and opens a new socket.
\<close>

theorem removeNode_keeps_timers:
  "(nodes l h = None \<longrightarrow> LavaLink_removeNode h l = l) \<and>
   nodes (LavaLink_removeNode h l) h = None \<and>
   (nodes l h = Some a \<longrightarrow> listeners (heap (LavaLink_removeNode h l) a) = []) \<and>
   timers (LavaLink_removeNode h l) = timers l \<and>
   (i < length (timers l) \<and> fst (timers l ! i) = a \<longrightarrow>
      ws (heap (timer_fires i (LavaLink_removeNode h l)) a) = Some (sockets l) \<and>
      trace (timer_fires i (LavaLink_removeNode h l)) =
        trace l @ [NodeEmit a Reconnecting,
                   NewWebSocket (sockets l) (gateway (heap l a)) (password (heap l a))
                     (shards (heap l a)) (user (heap l a))])"
  by (cases "nodes l h")
     (simp_all add: LavaLink_removeNode_def timer_fires_def LavaNode_connect_def Let_def)

text \<open>
  C2 in the scenario: host \<open>b\<close> is unknown and its removal changes nothing; host \<open>a\<close> is
  removed after an abnormal close, its timer stays and re-opens the connection.
\<close>

theorem removeNode_keeps_timers_witness:
  "LavaLink_removeNode ''b'' scenario_link = scenario_link \<and>
   nodes scenario_removed ''a'' = None \<and>
   listeners (heap scenario_removed 0) = [] \<and>
   timers scenario_removed = [(0, 10000)] \<and>
   ws (heap (timer_fires 0 scenario_removed) 0) = Some 1"
proof -
  have closed:
    "nodes (LavaNode_close 0 1006 JNull scenario_link) ''a'' = Some 0"
    "timers (LavaNode_close 0 1006 JNull scenario_link) = [(0, 10000)]"
    "sockets (LavaNode_close 0 1006 JNull scenario_link) = 1"
    by (simp_all add: LavaNode_close_def LavaNode_reconnect_def Let_def scenario_link_fields
          effect_def update_node_def)
  show ?thesis
    using removeNode_keeps_timers [where l = scenario_link and h = "''b''"]
      removeNode_keeps_timers
        [where l = "LavaNode_close 0 1006 JNull scenario_link" and h = "''a''" and a = 0 and i = 0]
    by (simp add: scenario_removed_def scenario_link_fields closed)
qed

text \<open>
  C2 as stated fails: the node of host \<open>a\<close> is removed while its reconnect timer is
  pending; the timer is still pending after the removal, and when it fires the removed
  node emits \<^verbatim>\<open>reconnecting\<close> and opens the socket with handle 1.
\<close>

theorem removeNode_cancels_timer_counterexample:
  "nodes scenario_removed ''a'' = None \<and>
   timers scenario_removed = [(0, 10000)] \<and>
   ws (heap (timer_fires 0 scenario_removed) 0) = Some 1 \<and>
   trace (timer_fires 0 scenario_removed) =
     [NewWebSocket 0 ''ws://localhost:8080'' ''secret'' 1 ''42'',
      SetTimeout 0 10000,
      NodeEmit 0 Reconnecting,
      NewWebSocket 1 ''ws://localhost:8080'' ''secret'' 1 ''42'']"
  by (simp add: scenario_removed_def LavaLink_removeNode_def LavaNode_close_def
        LavaNode_reconnect_def timer_fires_def LavaNode_connect_def Let_def scenario_link_fields)

subsection \<open>C3: send without a handle\<close>

text \<open>
  C3, as the code has it. \<^verbatim>\<open>send(data)\<close> on a node whose handle is \<^verbatim>\<open>null\<close>: when the
  data serializes, the call throws a TypeError synchronously (nothing is sent and no
  state changes); when it does not serialize, the node emits an error signal and the call
  returns before the handle is read.
\<close>

theorem send_absent_handle:
  "ws (heap w this) = None \<Longrightarrow>
   LavaNode_send this data w =
     (if serializable data then (Thrown TypeError, w)
      else (Returned (), w\<lparr>trace := trace w @ [NodeEmit this (NodeError TypeError)]\<rparr>))"
  by (simp add: LavaNode_send_def effect_def)

text \<open>C3 in the scenario, after a normal close has released the handle.\<close>

theorem send_absent_handle_witness:
  "LavaNode_send 0 (JObj [(''op'', JStr ''stop''), (''guildId'', JStr ''g1'')]) scenario_closed =
     (Thrown TypeError, scenario_closed) \<and>
   LavaNode_send 0 (JBigInt 1) scenario_closed =
     (Returned (),
      scenario_closed\<lparr>trace := trace scenario_closed @ [NodeEmit 0 (NodeError TypeError)]\<rparr>)"
  using send_absent_handle
      [where w = scenario_closed and this = 0
         and data = "JObj [(''op'', JStr ''stop''), (''guildId'', JStr ''g1'')]"]
    send_absent_handle [where w = scenario_closed and this = 0 and data = "JBigInt 1"]
  by (simp add: scenario_closed_fields)

text \<open>
  C3 as stated fails: after a normal close the handle is \<^verbatim>\<open>null\<close>, and sending a stop
  command throws.
\<close>

theorem send_silent_counterexample:
  "ws (heap scenario_closed 0) = None \<and>
   fst (LavaNode_send 0 (JObj [(''op'', JStr ''stop''), (''guildId'', JStr ''g1'')]) scenario_closed) =
     Thrown TypeError"
  by (simp add: LavaNode_send_def scenario_closed_fields)

subsection \<open>C4: the end of a track\<close>

text \<open>
  C4, as the code has it. For every end message (an object, or any value but \<^verbatim>\<open>null\<close>
  and \<^verbatim>\<open>undefined\<close>): when \<^verbatim>\<open>message.reason\<close> is the string \<^verbatim>\<open>REPLACED\<close>, in capitals,
  the player is left as it is; for every other reason \<open>playing\<close> becomes false and
  \<open>track\<close> \<^verbatim>\<open>null\<close>; in both cases exactly one end signal carrying the message is emitted.
\<close>

theorem end_replaced:
  "message \<noteq> JNull \<Longrightarrow> message \<noteq> JUndefined \<Longrightarrow>
   LavaPlayer_end message p w =
     (Returned (),
      (if member_of message ''reason'' = JStr ''REPLACED'' then p
       else p\<lparr>playing := False, track := JNull\<rparr>),
      w\<lparr>trace := trace w @ [PlayerEmit (guild p) (End message)]\<rparr>)"
  by (simp add: LavaPlayer_end_def player_emit_def effect_def)

text \<open>C4 on a playing player: \<^verbatim>\<open>REPLACED\<close> keeps the track, \<^verbatim>\<open>FINISHED\<close> clears it.\<close>

theorem end_replaced_witness:
  "LavaPlayer_end (JObj [(''reason'', JStr ''REPLACED'')])
     (scenario_player\<lparr>playing := True, track := JStr ''TRACK1''\<rparr>) scenario_link =
     (Returned (), scenario_player\<lparr>playing := True, track := JStr ''TRACK1''\<rparr>,
      scenario_link\<lparr>trace := trace scenario_link @
        [PlayerEmit ''g1'' (End (JObj [(''reason'', JStr ''REPLACED'')]))]\<rparr>) \<and>
   LavaPlayer_end (JObj [(''reason'', JStr ''FINISHED'')])
     (scenario_player\<lparr>playing := True, track := JStr ''TRACK1''\<rparr>) scenario_link =
     (Returned (), scenario_player\<lparr>playing := False, track := JNull\<rparr>,
      scenario_link\<lparr>trace := trace scenario_link @
        [PlayerEmit ''g1'' (End (JObj [(''reason'', JStr ''FINISHED'')]))]\<rparr>)"
  using end_replaced
      [where message = "JObj [(''reason'', JStr ''REPLACED'')]"
         and p = "scenario_player\<lparr>playing := True, track := JStr ''TRACK1''\<rparr>"
         and w = scenario_link]
    end_replaced
      [where message = "JObj [(''reason'', JStr ''FINISHED'')]"
         and p = "scenario_player\<lparr>playing := True, track := JStr ''TRACK1''\<rparr>"
         and w = scenario_link]
  by (simp add: property_def scenario_player_fields)

text \<open>
  C4 as stated fails: with the reason \<^verbatim>\<open>replaced\<close> in small letters, a player that is
  playing \<open>TRACK1\<close> ends with \<open>playing\<close> false and no track.
\<close>

theorem end_replaced_lowercase_counterexample:
  "playing (fst (calls [Play (JStr ''TRACK1'') [] 7] scenario_player scenario_link)) \<and>
   track (fst (calls [Play (JStr ''TRACK1'') [] 7] scenario_player scenario_link)) = JStr ''TRACK1'' \<and>
   \<not> playing (fst (calls [Play (JStr ''TRACK1'') [] 7, OnEnd (JObj [(''reason'', JStr ''replaced'')])]
                    scenario_player scenario_link)) \<and>
   track (fst (calls [Play (JStr ''TRACK1'') [] 7, OnEnd (JObj [(''reason'', JStr ''replaced'')])]
                  scenario_player scenario_link)) = JNull"
  by (simp add: LavaPlayer_play_def LavaPlayer_end_def node_send_def LavaNode_send_def
        play_payload_def assign_def property_def Let_def scenario_player_fields
        scenario_link_fields)

subsection \<open>C5: closing the socket\<close>

text \<open>
  C5. A close with code 1000 clears readiness, releases the handle, emits one disconnect
  signal carrying the reason and schedules nothing: the pending timers and the sockets
  are as before. A close with any other code clears readiness and schedules exactly one
  timer, with the node's reconnect interval as its delay; when that timer fires it is
  spent, the node emits \<^verbatim>\<open>reconnecting\<close> and only then opens a new socket, which becomes
  its handle. A node made without a reconnect interval has the interval 10000.
\<close>

theorem close_normal_or_reconnect:
  "ready (heap (LavaNode_close this 1000 reason w) this) = Some False \<and>
   ws (heap (LavaNode_close this 1000 reason w) this) = None \<and>
   trace (LavaNode_close this 1000 reason w) = trace w @ [NodeEmit this (Disconnect reason)] \<and>
   timers (LavaNode_close this 1000 reason w) = timers w \<and>
   sockets (LavaNode_close this 1000 reason w) = sockets w \<and>
   (code \<noteq> 1000 \<longrightarrow>
      ready (heap (LavaNode_close this code reason w) this) = Some False \<and>
      timers (LavaNode_close this code reason w) =
        timers w @ [(this, reconnectInterval (heap w this))] \<and>
      trace (LavaNode_close this code reason w) =
        trace w @ [SetTimeout this (reconnectInterval (heap w this))] \<and>
      sockets (LavaNode_close this code reason w) = sockets w \<and>
      timers (timer_fires (length (timers w)) (LavaNode_close this code reason w)) = timers w \<and>
      trace (timer_fires (length (timers w)) (LavaNode_close this code reason w)) =
        trace w @ [SetTimeout this (reconnectInterval (heap w this)),
                   NodeEmit this Reconnecting,
                   NewWebSocket (sockets w) (gateway (heap w this)) (password (heap w this))
                     (shards (heap w this)) (user (heap w this))] \<and>
      ws (heap (timer_fires (length (timers w)) (LavaNode_close this code reason w)) this) =
        Some (sockets w)) \<and>
   reconnectInterval
     (heap (snd (LavaNode_new (options\<lparr>o_reconnectInterval := None\<rparr>) w))
        (fst (LavaNode_new (options\<lparr>o_reconnectInterval := None\<rparr>) w))) = 10000"
  by (simp add: LavaNode_close_def LavaNode_reconnect_def timer_fires_def LavaNode_connect_def
      LavaNode_new_def or_default_def Let_def)

text \<open>C5 in the scenario: the close codes 1000 and 1006 on the node of host \<open>a\<close>.\<close>

theorem close_normal_or_reconnect_witness:
  "timers (LavaNode_close 0 1000 JNull scenario_link) = [] \<and>
   trace (LavaNode_close 0 1000 JNull scenario_link) =
     [NewWebSocket 0 ''ws://localhost:8080'' ''secret'' 1 ''42'', NodeEmit 0 (Disconnect JNull)] \<and>
   timers (LavaNode_close 0 1006 JNull scenario_link) = [(0, 10000)] \<and>
   trace (timer_fires 0 (LavaNode_close 0 1006 JNull scenario_link)) =
     [NewWebSocket 0 ''ws://localhost:8080'' ''secret'' 1 ''42'',
      SetTimeout 0 10000,
      NodeEmit 0 Reconnecting,
      NewWebSocket 1 ''ws://localhost:8080'' ''secret'' 1 ''42''] \<and>
   ws (heap (timer_fires 0 (LavaNode_close 0 1006 JNull scenario_link)) 0) = Some 1"
  using close_normal_or_reconnect
      [where this = 0 and reason = JNull and w = scenario_link and code = 1006]
  by (simp add: scenario_link_fields)

subsection \<open>C6: pause\<close>

text \<open>
  C6. For every boolean flag, \<^verbatim>\<open>pause(flag)\<close> returns with the player and the state as
  they were when the flag equals \<open>paused\<close>; otherwise, on a player whose node has a
  handle, it sends exactly one pause message carrying the guild and the flag and sets
  \<open>paused\<close> to the flag. Hence any number of \<^verbatim>\<open>pause(true)\<close> calls, at least one, on an
  unpaused player send exactly one pause message and leave \<open>paused\<close> true.
\<close>

theorem pause_idempotent:
  "(b = paused p \<longrightarrow> LavaPlayer_pause (JBool b) p w = (Returned (), p, w)) \<and>
   (b \<noteq> paused p \<and> node p = Some a \<and> ws (heap w a) = Some h \<longrightarrow>
      LavaPlayer_pause (JBool b) p w =
        (Returned (), p\<lparr>paused := b\<rparr>,
         w\<lparr>trace := trace w @
              [SocketSend h (JObj [(''op'', JStr ''pause''), (''guildId'', JStr (guild p)),
                                   (''pause'', JBool b)])]\<rparr>)) \<and>
   (\<not> paused p \<and> node p = Some a \<and> ws (heap w a) = Some h \<longrightarrow>
      calls (replicate (Suc n) (Pause (JBool True))) p w =
        (p\<lparr>paused := True\<rparr>,
         w\<lparr>trace := trace w @
              [SocketSend h (JObj [(''op'', JStr ''pause''), (''guildId'', JStr (guild p)),
                                   (''pause'', JBool True)])]\<rparr>))"
proof (intro conjI impI)
  assume "b = paused p"
  then show "LavaPlayer_pause (JBool b) p w = (Returned (), p, w)"
    by (simp add: pause_same)
next
  assume "b \<noteq> paused p \<and> node p = Some a \<and> ws (heap w a) = Some h"
  then show "LavaPlayer_pause (JBool b) p w =
        (Returned (), p\<lparr>paused := b\<rparr>,
         w\<lparr>trace := trace w @
              [SocketSend h (JObj [(''op'', JStr ''pause''), (''guildId'', JStr (guild p)),
                                   (''pause'', JBool b)])]\<rparr>)"
    using pause_other [of "JBool b" p a w h] by (simp add: effect_def)
next
  assume hyp: "\<not> paused p \<and> node p = Some a \<and> ws (heap w a) = Some h"
  then have first: "LavaPlayer_pause (JBool True) p w =
        (Returned (), p\<lparr>paused := True\<rparr>,
         effect (SocketSend h (JObj [(''op'', JStr ''pause''), (''guildId'', JStr (guild p)),
                                   (''pause'', JBool True)])) w)"
    using pause_other [of "JBool True" p a w h] by simp
  show "calls (replicate (Suc n) (Pause (JBool True))) p w =
        (p\<lparr>paused := True\<rparr>,
         w\<lparr>trace := trace w @
              [SocketSend h (JObj [(''op'', JStr ''pause''), (''guildId'', JStr (guild p)),
                                   (''pause'', JBool True)])]\<rparr>)"
    by (simp add: first pause_true_again) (simp add: effect_def)
qed

text \<open>
  C6 in the scenario, on the unpaused player of \<open>g1\<close>: \<^verbatim>\<open>pause(false)\<close> does nothing,
  \<^verbatim>\<open>pause(true)\<close> sends one message, three \<^verbatim>\<open>pause(true)\<close> calls send one message.
\<close>

theorem pause_idempotent_witness:
  "LavaPlayer_pause (JBool False) scenario_player scenario_link =
     (Returned (), scenario_player, scenario_link) \<and>
   LavaPlayer_pause (JBool True) scenario_player scenario_link =
     (Returned (), scenario_player\<lparr>paused := True\<rparr>,
      scenario_link\<lparr>trace := trace scenario_link @
        [SocketSend 0 (JObj [(''op'', JStr ''pause''), (''guildId'', JStr ''g1''),
                             (''pause'', JBool True)])]\<rparr>) \<and>
   calls (replicate (Suc 2) (Pause (JBool True))) scenario_player scenario_link =
     (scenario_player\<lparr>paused := True\<rparr>,
      scenario_link\<lparr>trace := trace scenario_link @
        [SocketSend 0 (JObj [(''op'', JStr ''pause''), (''guildId'', JStr ''g1''),
                             (''pause'', JBool True)])]\<rparr>)"
proof (intro conjI)
  show "LavaPlayer_pause (JBool False) scenario_player scenario_link =
     (Returned (), scenario_player, scenario_link)"
    using pause_idempotent [where b = False and p = scenario_player and w = scenario_link]
    by (simp add: scenario_player_fields)
next
  show "LavaPlayer_pause (JBool True) scenario_player scenario_link =
     (Returned (), scenario_player\<lparr>paused := True\<rparr>,
      scenario_link\<lparr>trace := trace scenario_link @
        [SocketSend 0 (JObj [(''op'', JStr ''pause''), (''guildId'', JStr ''g1''),
                             (''pause'', JBool True)])]\<rparr>)"
    using pause_idempotent
      [where b = True and p = scenario_player and w = scenario_link and a = 0 and h = 0]
    by (simp add: scenario_player_fields scenario_link_fields)
next
  show "calls (replicate (Suc 2) (Pause (JBool True))) scenario_player scenario_link =
     (scenario_player\<lparr>paused := True\<rparr>,
      scenario_link\<lparr>trace := trace scenario_link @
        [SocketSend 0 (JObj [(''op'', JStr ''pause''), (''guildId'', JStr ''g1''),
                             (''pause'', JBool True)])]\<rparr>)"
    using pause_idempotent
      [where p = scenario_player and w = scenario_link and a = 0 and h = 0 and n = 2]
    by (simp only: scenario_player_fields scenario_link_fields lava_node.simps
          not_False_eq_True simp_thms)
qed

subsection \<open>C7: a stuck track\<close>

text \<open>
  C7. For every stuck message, on a player whose node has a handle, \<^verbatim>\<open>stuck(message)\<close>
  sends exactly one stop command for the guild, clears \<open>playing\<close> and \<open>track\<close>, and then
  emits exactly one end signal carrying the message as it was given.
\<close>

theorem stuck_stops_then_ends:
  "node p = Some a \<Longrightarrow> ws (heap w a) = Some h \<Longrightarrow>
   LavaPlayer_stuck message p w =
     (Returned (), p\<lparr>playing := False, track := JNull\<rparr>,
      w\<lparr>trace := trace w @
           [SocketSend h (JObj [(''op'', JStr ''stop''), (''guildId'', JStr (guild p))]),
            PlayerEmit (guild p) (End message)]\<rparr>)"
  by (simp add: LavaPlayer_stuck_def LavaPlayer_stop_def node_send_open player_emit_def)
     (simp add: effect_def)

text \<open>C7 on a playing player of the scenario.\<close>

theorem stuck_stops_then_ends_witness:
  "LavaPlayer_stuck (JObj [(''type'', JStr ''TrackStuckEvent''), (''thresholdMs'', JNum 500)])
     (scenario_player\<lparr>playing := True, track := JStr ''TRACK1''\<rparr>) scenario_link =
     (Returned (), scenario_player\<lparr>playing := False, track := JNull\<rparr>,
      scenario_link\<lparr>trace := trace scenario_link @
        [SocketSend 0 (JObj [(''op'', JStr ''stop''), (''guildId'', JStr ''g1'')]),
         PlayerEmit ''g1''
           (End (JObj [(''type'', JStr ''TrackStuckEvent''), (''thresholdMs'', JNum 500)]))]\<rparr>)"
  using stuck_stops_then_ends
      [where p = "scenario_player\<lparr>playing := True, track := JStr ''TRACK1''\<rparr>" and a = 0
         and w = scenario_link and h = 0
         and message = "JObj [(''type'', JStr ''TrackStuckEvent''), (''thresholdMs'', JNum 500)]"]
  by (simp add: scenario_player_fields scenario_link_fields)

subsection \<open>C8: inbound frames\<close>

text \<open>
  C8, as the code has it. For every successfully parsed inbound frame whose payload is
  truthy: the payload is forwarded as it is in exactly one message signal, whatever its
  operation tag, and when the tag is \<^verbatim>\<open>stats\<close> the node's statistics become the payload
  itself (else they stay). A parsed payload that is falsy (\<^verbatim>\<open>null\<close>, \<^verbatim>\<open>false\<close>, \<^verbatim>\<open>0\<close>,
  the empty string) is dropped: nothing is emitted and nothing changes.
\<close>

theorem message_stats_forwarded:
  "(truthy data \<longrightarrow>
      trace (LavaNode_message this (Some data) w) = trace w @ [NodeEmit this (Message data)] \<and>
      stats (heap (LavaNode_message this (Some data) w) this) =
        (if member_of data ''op'' = JStr ''stats'' then data else stats (heap w this))) \<and>
   (\<not> truthy data \<longrightarrow> LavaNode_message this (Some data) w = w)"
  by (simp add: LavaNode_message_def Let_def)

text \<open>C8 in the scenario: a stats frame, a player update and the frame \<^verbatim>\<open>null\<close>.\<close>

theorem message_stats_forwarded_witness:
  "stats (heap (LavaNode_message 0 (Some (JObj [(''op'', JStr ''stats''), (''players'', JNum 3)]))
                  scenario_link) 0) =
     JObj [(''op'', JStr ''stats''), (''players'', JNum 3)] \<and>
   trace (LavaNode_message 0 (Some (JObj [(''op'', JStr ''playerUpdate''), (''guildId'', JStr ''g1'')]))
            scenario_link) =
     [NewWebSocket 0 ''ws://localhost:8080'' ''secret'' 1 ''42'',
      NodeEmit 0 (Message (JObj [(''op'', JStr ''playerUpdate''), (''guildId'', JStr ''g1'')]))] \<and>
   stats (heap (LavaNode_message 0 (Some (JObj [(''op'', JStr ''playerUpdate''), (''guildId'', JStr ''g1'')]))
                  scenario_link) 0) =
     JObj [(''players'', JNum 0), (''playingPlayers'', JNum 0)] \<and>
   LavaNode_message 0 (Some JNull) scenario_link = scenario_link"
  using message_stats_forwarded
      [where data = "JObj [(''op'', JStr ''stats''), (''players'', JNum 3)]" and this = 0
         and w = scenario_link]
    message_stats_forwarded
      [where data = "JObj [(''op'', JStr ''playerUpdate''), (''guildId'', JStr ''g1'')]"
         and this = 0 and w = scenario_link]
    message_stats_forwarded [where data = JNull and this = 0 and w = scenario_link]
  by (simp add: property_def scenario_link_fields)

text \<open>
  C8 as stated fails: a stats payload is forwarded as a message signal too, and the
  successfully parsed frame \<^verbatim>\<open>null\<close> is not forwarded.
\<close>

theorem stats_not_forwarded_counterexample:
  "trace (LavaNode_message 0 (Some (JObj [(''op'', JStr ''stats''), (''players'', JNum 3)]))
            scenario_link) =
     [NewWebSocket 0 ''ws://localhost:8080'' ''secret'' 1 ''42'',
      NodeEmit 0 (Message (JObj [(''op'', JStr ''stats''), (''players'', JNum 3)]))] \<and>
   trace (LavaNode_message 0 (Some JNull) scenario_link) =
     [NewWebSocket 0 ''ws://localhost:8080'' ''secret'' 1 ''42'']"
  by (simp add: LavaNode_message_def property_def Let_def scenario_link_fields)

subsection \<open>C9: no track, not playing\<close>

text \<open>
  C9, as the code has it. \<^verbatim>\<open>play\<close> stores the track it is given without a check and
  then sets \<open>playing\<close> to true. For every new player, every state of the runtime and
  every sequence of the calls connect, play, stop, pause, volume, seek, end, exception
  and stuck in which no play call is given \<^verbatim>\<open>null\<close> as its track, whether the calls
  return or throw: after the calls, \<open>playing\<close> is false whenever \<open>track\<close> is \<^verbatim>\<open>null\<close>.
\<close>

theorem playing_false_without_track:
  "\<not> list_ex plays_null cs \<Longrightarrow>
   track (fst (calls cs (LavaPlayer_new options now) w)) = JNull \<longrightarrow>
   \<not> playing (fst (calls cs (LavaPlayer_new options now) w))"
proof -
  assume cs: "\<not> list_ex plays_null cs"
  have "no_track_not_playing (LavaPlayer_new options now)"
    by (simp add: LavaPlayer_new_def no_track_not_playing_def)
  then have "no_track_not_playing (fst (calls cs (LavaPlayer_new options now) w))"
    using cs calls_keep_invariant [of "LavaPlayer_new options now" cs w]
    by (cases "calls cs (LavaPlayer_new options now) w") auto
  then show ?thesis
    by (simp add: no_track_not_playing_def)
qed

text \<open>C9 in the scenario: after play and stop the player has no track and is not playing.\<close>

theorem playing_false_without_track_witness:
  "\<not> list_ex plays_null [Play (JStr ''TRACK1'') [] 7, Stop] \<and>
   track (fst (calls [Play (JStr ''TRACK1'') [] 7, Stop] scenario_player scenario_link)) = JNull \<and>
   \<not> playing (fst (calls [Play (JStr ''TRACK1'') [] 7, Stop] scenario_player scenario_link))"
proof -
  have ok: "\<not> list_ex plays_null [Play (JStr ''TRACK1'') [] 7, Stop]"
    by simp
  have none:
    "track (fst (calls [Play (JStr ''TRACK1'') [] 7, Stop] scenario_player scenario_link)) = JNull"
    by (simp add: LavaPlayer_play_def LavaPlayer_stop_def node_send_def LavaNode_send_def
          play_payload_def assign_def Let_def scenario_player_fields scenario_link_fields)
  from ok none playing_false_without_track
      [OF ok, where options = "\<lparr>o_node = Some 0, o_guild = ''g1'', o_channel = ''c1''\<rparr>"
         and now = 5 and w = scenario_link]
  show ?thesis
    by (simp only: scenario_player_def simp_thms)
qed

text \<open>
  C9 as stated fails: \<^verbatim>\<open>play(null, {})\<close> on the new player of the scenario sends the
  play message and leaves the player with the track \<^verbatim>\<open>null\<close> and \<open>playing\<close> true.
\<close>

theorem play_null_counterexample:
  "track (fst (calls [Play JNull [] 7] scenario_player scenario_link)) = JNull \<and>
   playing (fst (calls [Play JNull [] 7] scenario_player scenario_link)) \<and>
   trace (snd (calls [Play JNull [] 7] scenario_player scenario_link)) =
     [NewWebSocket 0 ''ws://localhost:8080'' ''secret'' 1 ''42'',
      SocketSend 0 (JObj [(''op'', JStr ''play''), (''guildId'', JStr ''g1''), (''track'', JNull)])]"
  by (simp add: LavaPlayer_play_def node_send_def LavaNode_send_def play_payload_def assign_def
        Let_def scenario_player_fields scenario_link_fields)

subsection \<open>C10: the play message\<close>

text \<open>
  C10. The object \<^verbatim>\<open>play\<close> sends is the base fields \<^verbatim>\<open>op: 'play'\<close>, \<^verbatim>\<open>guildId\<close>
  (the player's guild) and \<^verbatim>\<open>track\<close>, overridden by the fields of the options (the
  last binding of a key in the options wins); on a player whose node has a handle, and
  when the object serializes, exactly that object is sent. So there are options for
  which the operation tag, the guild id and the track of the sent message all differ
  from the player's own.
\<close>

theorem play_payload_overrides:
  "map_of (play_payload p t options) =
     map_of [(''op'', JStr ''play''), (''guildId'', JStr (guild p)), (''track'', t)]
       ++ map_of (rev options) \<and>
   (node p = Some a \<and> ws (heap w a) = Some h \<and> serializable (JObj (play_payload p t options)) \<longrightarrow>
      LavaPlayer_play t options now p w =
        (Returned (), p\<lparr>track := t, playing := True, timestamp := now\<rparr>,
         w\<lparr>trace := trace w @ [SocketSend h (JObj (play_payload p t options))]\<rparr>)) \<and>
   (\<exists>options. property (play_payload p t options) ''op'' \<noteq> JStr ''play'' \<and>
              property (play_payload p t options) ''guildId'' \<noteq> JStr (guild p) \<and>
              property (play_payload p t options) ''track'' \<noteq> t)"
proof (intro conjI impI)
  show "map_of (play_payload p t options) =
     map_of [(''op'', JStr ''play''), (''guildId'', JStr (guild p)), (''track'', t)]
       ++ map_of (rev options)"
    by (simp only: play_payload_def map_of_assign)
next
  assume "node p = Some a \<and> ws (heap w a) = Some h \<and>
    serializable (JObj (play_payload p t options))"
  then have "LavaPlayer_play t options now p w =
     (Returned (), p\<lparr>track := t, playing := True, timestamp := now\<rparr>,
      effect (SocketSend h (JObj (play_payload p t options))) w)"
    by (intro play_open) blast+
  then show "LavaPlayer_play t options now p w =
        (Returned (), p\<lparr>track := t, playing := True, timestamp := now\<rparr>,
         w\<lparr>trace := trace w @ [SocketSend h (JObj (play_payload p t options))]\<rparr>)"
    by (simp only: effect_def)
next
  show "\<exists>options. property (play_payload p t options) ''op'' \<noteq> JStr ''play'' \<and>
              property (play_payload p t options) ''guildId'' \<noteq> JStr (guild p) \<and>
              property (play_payload p t options) ''track'' \<noteq> t"
    by (rule exI [where x = "[(''op'', JStr ''stop''), (''guildId'', JNum 0),
                             (''track'', if t = JNum 0 then JNum 1 else JNum 0)]"])
       (simp add: play_payload_def assign_def property_def)
qed

text \<open>
  C10 in the scenario: the options \<^verbatim>\<open>{op: 'stop', guildId: 'g2'}\<close> replace the operation
  tag and the guild of the message that is sent.
\<close>

theorem play_payload_overrides_witness:
  "LavaPlayer_play (JStr ''TRACK1'') [(''op'', JStr ''stop''), (''guildId'', JStr ''g2'')] 7
     scenario_player scenario_link =
     (Returned (), scenario_player\<lparr>track := JStr ''TRACK1'', playing := True, timestamp := 7\<rparr>,
      scenario_link\<lparr>trace := trace scenario_link @
        [SocketSend 0 (JObj [(''op'', JStr ''stop''), (''guildId'', JStr ''g2''),
                             (''track'', JStr ''TRACK1'')])]\<rparr>)"
proof -
  have payload:
    "play_payload scenario_player (JStr ''TRACK1'') [(''op'', JStr ''stop''), (''guildId'', JStr ''g2'')] =
       [(''op'', JStr ''stop''), (''guildId'', JStr ''g2''), (''track'', JStr ''TRACK1'')]"
    by (simp add: play_payload_def assign_def scenario_player_fields)
  show ?thesis
    using play_payload_overrides
      [where p = scenario_player and t = "JStr ''TRACK1''"
         and options = "[(''op'', JStr ''stop''), (''guildId'', JStr ''g2'')]"
         and a = 0 and w = scenario_link and h = 0 and now = 7]
    by (simp add: payload scenario_player_fields scenario_link_fields)
qed


end
